theory Spec2Isabelle
  imports Main "HOL-Library.Word" "HOL-Library.Sublist"
begin

section \<open>JavaScript strings\<close>

text \<open>
  A JavaScript string is a sequence of 16-bit code units. \<open>js\<close> writes an ASCII literal
  of the source as such a sequence.
\<close>

type_synonym js_string = "16 word list"

definition js :: "string \<Rightarrow> js_string" where
  "js s = map of_char s"

definition colon :: "16 word" where
  "colon = 0x3A"

text \<open>
  The code units that \<^verbatim>\<open>String.prototype.trim\<close> strips and that \<^verbatim>\<open>\s\<close> matches in a
  regular expression: ECMAScript's WhiteSpace and LineTerminator productions.
\<close>

definition is_space :: "16 word \<Rightarrow> bool" where
  "is_space c \<longleftrightarrow>
     c = 0x09 \<or> c = 0x0A \<or> c = 0x0B \<or> c = 0x0C \<or> c = 0x0D \<or> c = 0x20 \<or> c = 0xA0 \<or>
     c = 0x1680 \<or> (0x2000 \<le> c \<and> c \<le> 0x200A) \<or> c = 0x2028 \<or> c = 0x2029 \<or>
     c = 0x202F \<or> c = 0x205F \<or> c = 0x3000 \<or> c = 0xFEFF"

definition trim :: "js_string \<Rightarrow> js_string" where
  "trim s = rev (dropWhile is_space (rev (dropWhile is_space s)))"

text \<open>\<^verbatim>\<open>s.replace(/\s/g, '')\<close>: every whitespace code unit is deleted.\<close>

definition remove_whitespace :: "js_string \<Rightarrow> js_string" where
  "remove_whitespace s = filter (\<lambda>c. \<not> is_space c) s"

text \<open>
  \<^verbatim>\<open>fullKey.match(/^([^:]+):/)\<close>: the pattern is anchored at the start, the class
  \<^verbatim>\<open>[^:]+\<close> takes the longest run of code units other than a colon, which must not be
  empty, and a colon must follow. The result is the first capture group, or \<open>None\<close> for
  JavaScript's \<^verbatim>\<open>null\<close>.
\<close>

definition match_category :: "js_string \<Rightarrow> js_string option" where
  "match_category fullKey =
     (let text = takeWhile (\<lambda>c. c \<noteq> colon) fullKey;
          rest = dropWhile (\<lambda>c. c \<noteq> colon) fullKey
      in if text \<noteq> [] \<and> rest \<noteq> [] then Some text else None)"

text \<open>
  \<^verbatim>\<open>fullKey.replace(/^[^:]+:\s*/, '')\<close>: where the same prefix matches, it is deleted
  together with the colon and the whitespace after it; otherwise the string is unchanged.
\<close>

definition replace_category :: "js_string \<Rightarrow> js_string" where
  "replace_category fullKey =
     (let text = takeWhile (\<lambda>c. c \<noteq> colon) fullKey;
          rest = dropWhile (\<lambda>c. c \<noteq> colon) fullKey
      in if text \<noteq> [] \<and> rest \<noteq> [] then dropWhile is_space (tl rest) else fullKey)"

section \<open>Data model\<close>

record Snippet =
  body :: "js_string list"
  prefix' :: "js_string list"

text \<open>
  The object that \<^verbatim>\<open>JSON.parse\<close> returns, typed \<^verbatim>\<open>SnippetsFile\<close> in the source: its own
  properties in the order in which they were created, which is the order of the members in
  the text of the file.
\<close>

type_synonym SnippetsFile = "(js_string \<times> Snippet) list"

text \<open>
  A message from the webview. Its only sender is the script in the markup, which posts
  \<^verbatim>\<open>{command: 'insertGlyph', glyph: event.target.innerText}\<close>.
\<close>

record Message =
  command :: js_string
  glyph :: js_string

record BqnPrimitive =
  glyph :: js_string
  name :: js_string
  category :: js_string

text \<open>
  A thrown \<^verbatim>\<open>Error\<close> object with its name and message; \<open>to_string\<close> is what the template
  literal \<^verbatim>\<open>${error}\<close> makes of it (\<^verbatim>\<open>Error.prototype.toString\<close>).
\<close>

datatype js_error = JsError js_string js_string

fun to_string :: "js_error \<Rightarrow> js_string" where
  "to_string (JsError nm msg) =
     (if nm = [] then msg else if msg = [] then nm else nm @ js '': '' @ msg)"

record Position =
  line :: nat
  character :: nat

record Selection =
  anchor :: Position
  active :: Position

record TextEditor =
  document :: js_string
  selections :: "Selection list"

datatype edit_op = Replace Selection js_string

text \<open>
  The calls the extension makes on the host. \<open>EditThen editor ops k\<close> is
  \<^verbatim>\<open>editor.edit(callback).then(k)\<close>: \<open>ops\<close> are the operations the callback put into
  the edit builder, and \<open>k\<close> are the calls of the continuation that runs once the edit has
  been fulfilled.
\<close>

datatype host_call =
    ShowErrorMessage js_string
  | ConsoleError js_string js_error
  | ShowInformationMessage js_string
  | EditThen TextEditor "edit_op list" "host_call list"
  | ShowTextDocument js_string

text \<open>
  What the code reads from its platform: the extension's path, Node's \<^verbatim>\<open>path.join\<close>,
  \<^verbatim>\<open>fs.readFileSync\<close> and \<^verbatim>\<open>JSON.parse\<close> (each returns or throws), the locale's
  lower-casing of a string, and the editor that is active, if any. The result of
  \<^verbatim>\<open>JSON.parse\<close> has the type the source declares for it.
\<close>

record host =
  fsPath :: js_string
  path_join :: "js_string list \<Rightarrow> js_string"
  readFileSync :: "js_string \<Rightarrow> js_error + js_string"
  JSON_parse :: "js_string \<Rightarrow> js_error + SnippetsFile"
  toLocaleLowerCase :: "js_string \<Rightarrow> js_string"
  activeTextEditor :: "TextEditor option"

section \<open>Loading the glyph data\<close>

text \<open>
  The body of the loop for one key and its snippet: the record that is pushed, or \<open>None\<close>
  when \<^verbatim>\<open>snippet.body[0]\<close> is \<^verbatim>\<open>undefined\<close> or the empty string, both falsy.
\<close>

definition primitive_of :: "host \<Rightarrow> js_string \<Rightarrow> Snippet \<Rightarrow> BqnPrimitive option" where
  "primitive_of h fullKey snippet =
     (let categoryMatch = match_category fullKey;
          category = (case categoryMatch of
                        Some text \<Rightarrow> remove_whitespace (toLocaleLowerCase h (trim text))
                      | None \<Rightarrow> js ''other'');
          name = trim (replace_category fullKey);
          glyph = (case body snippet of [] \<Rightarrow> None | first # _ \<Rightarrow> Some first)
      in case glyph of
           Some g \<Rightarrow>
             if g \<noteq> [] then Some \<lparr>glyph = g, name = name, category = category\<rparr>
             else None
         | None \<Rightarrow> None)"

text \<open>
  The order in which \<^verbatim>\<open>for ... in\<close> visits the own keys of an ordinary object: first the
  keys that are array indices (the canonical decimal numeral of a number below
  \<open>2\<^sup>3\<^sup>2 - 1\<close>) in ascending numeric order, then the other keys in the order of their
  creation. The prototype of a parsed object has no enumerable property.
\<close>

definition is_digit :: "16 word \<Rightarrow> bool" where
  "is_digit c \<longleftrightarrow> 0x30 \<le> c \<and> c \<le> 0x39"

definition index_value :: "js_string \<Rightarrow> nat" where
  "index_value key = foldl (\<lambda>n c. 10 * n + (unat c - 48)) 0 key"

definition is_array_index :: "js_string \<Rightarrow> bool" where
  "is_array_index key \<longleftrightarrow>
     key \<noteq> [] \<and> list_all is_digit key \<and> (key = [0x30] \<or> hd key \<noteq> 0x30) \<and>
     index_value key < 4294967295"

definition own_keys :: "SnippetsFile \<Rightarrow> js_string list" where
  "own_keys snippets =
     sort_key index_value (filter is_array_index (map fst snippets))
     @ filter (\<lambda>k. \<not> is_array_index k) (map fst snippets)"

text \<open>
  \<^verbatim>\<open>snippets.hasOwnProperty(fullKey)\<close>: the property \<^verbatim>\<open>hasOwnProperty\<close> is looked up on the
  parsed object first. An entry of the file with that key is an own property that hides the
  method of \<^verbatim>\<open>Object.prototype\<close>; it is a snippet, not a function, and calling it throws
  a \<^verbatim>\<open>TypeError\<close>.
\<close>

definition hasOwnProperty :: "SnippetsFile \<Rightarrow> js_string \<Rightarrow> js_error + bool" where
  "hasOwnProperty snippets fullKey =
     (case map_of snippets (js ''hasOwnProperty'') of
        Some _ \<Rightarrow> Inl (JsError (js ''TypeError'') (js ''snippets.hasOwnProperty is not a function''))
      | None \<Rightarrow> Inr (map_of snippets fullKey \<noteq> None))"

text \<open>
  The \<^verbatim>\<open>for ... in\<close> loop over the keys still to visit, with the array \<open>primitives\<close>
  built so far. Reading \<^verbatim>\<open>.body\<close> of a missing property would throw as well.
\<close>

fun for_in :: "host \<Rightarrow> SnippetsFile \<Rightarrow> js_string list \<Rightarrow> BqnPrimitive list
    \<Rightarrow> js_error + BqnPrimitive list" where
  "for_in h snippets [] primitives = Inr primitives"
| "for_in h snippets (fullKey # keys) primitives =
     (case hasOwnProperty snippets fullKey of
        Inl e \<Rightarrow> Inl e
      | Inr False \<Rightarrow> for_in h snippets keys primitives
      | Inr True \<Rightarrow>
          (case map_of snippets fullKey of
             None \<Rightarrow> Inl (JsError (js ''TypeError'')
                           (js ''Cannot read properties of undefined (reading 'body')''))
           | Some snippet \<Rightarrow>
               (case primitive_of h fullKey snippet of
                  Some p \<Rightarrow> for_in h snippets keys (primitives @ [p])
                | None \<Rightarrow> for_in h snippets keys primitives)))"

text \<open>The statements inside \<^verbatim>\<open>try\<close>; \<open>Inl\<close> is a throw, which leaves the block.\<close>

definition try_block :: "host \<Rightarrow> js_string \<Rightarrow> js_error + BqnPrimitive list" where
  "try_block h snippetsPath =
     (case readFileSync h snippetsPath of
        Inl e \<Rightarrow> Inl e
      | Inr fileContent \<Rightarrow>
          (case JSON_parse h fileContent of
             Inl e \<Rightarrow> Inl e
           | Inr snippets \<Rightarrow> for_in h snippets (own_keys snippets) []))"

text \<open>The path of the bundled file, as the first two statements compute it.\<close>

definition snippetsPath_of :: "host \<Rightarrow> js_string" where
  "snippetsPath_of h = path_join h [fsPath h, js ''snippets'', js ''snippets.code-snippets'']"

text \<open>
  \<^verbatim>\<open>_loadGlyphData\<close>: the array it returns and the calls it made on the host, in order.
  The \<^verbatim>\<open>catch\<close> block turns every throw of the \<^verbatim>\<open>try\<close> block into the empty array.
\<close>

definition loadGlyphData :: "host \<Rightarrow> BqnPrimitive list \<times> host_call list" where
  "loadGlyphData h =
     (case try_block h (snippetsPath_of h) of
        Inr primitives \<Rightarrow> (primitives, [])
      | Inl error \<Rightarrow>
          ([], [ShowErrorMessage (js ''Failed to load BQN snippets: '' @ to_string error),
                ConsoleError (js ''Failed to load BQN snippets:'') error]))"

section \<open>The markup\<close>

text \<open>
  The template literal of \<^verbatim>\<open>_getHtmlForWebview\<close>, before and after the place where
  \<^verbatim>\<open>${glyphButtons}\<close> is substituted.
\<close>

definition html_before :: string where
  \<open>html_before = ''<!DOCTYPE html>
    <html lang="en">
    <head>
      <meta charset="UTF-8">
      <meta name="viewport" content="width=device-width, initial-scale=1.0">
      <title>BQN Glyphs</title>
      <style>
        body {
          padding: 5px;
          font-size: 1.5em;
        }
        .glyph-button {
          cursor: pointer;
          border: 1px solid var(--vscode-button-secondaryBackground);
          background-color: var(--vscode-button-secondaryBackground);
          color: var(--vscode-editor-foreground);
          margin: 2px;
          padding: 5px 10px;
          border-radius: 3px;
          min-width: 40px;
          text-align: center;
          font-size: 0.75em;
        }
        /* Category-specific colors (overrides the default 'color' property) */
        .value { color: var(--vscode-terminal-ansiWhite); }
        .function { color: var(--vscode-terminal-ansiBrightGreen); }
        .modifier { color: var(--vscode-terminal-ansiMagenta); }
        .modifier2 { color: var(--vscode-terminal-ansiBrightYellow); }
        .number { color: var(--vscode-terminal-ansiRed); }
        .gets { color: var(--vscode-terminal-ansiWhite); }
        .parens { color: var(--vscode-terminal-ansiWhite); }
        .bracket { color: var(--vscode-terminal-ansiBrightMagenta); }
        .brace { color: var(--vscode-terminal-ansiMagenta); }
        .ligature { color: var(--vscode-terminal-ansiWhite); }
        .nothing { color: var(--vscode-terminal-ansiRed); }
        .separator { color: var(--vscode-terminal-ansiBrightMagenta); }
        .comment { color: var(--vscode-terminal-ansiBlue); }
        .string { color: var(--vscode-terminal-ansiBrightBlue); }
        .other { color: var(--vscode-terminal-ansiWhite); }
        .glyph-button:hover {
          background-color: var(--vscode-button-secondaryHoverBackground);
        }
      </style>
    </head>
    <body>
      ''\<close>

definition html_after :: string where
  \<open>html_after = ''

      <script>
        const vscode = acquireVsCodeApi();

        document.body.addEventListener('click', event => {
          if (event.target.className.includes('glyph-button')) {
            vscode.postMessage({
              command: 'insertGlyph',
              glyph: event.target.innerText
            });
          }
        });
      </script>
    </body>
    </html>''\<close>

text \<open>
  What \<^verbatim>\<open>_getHtmlForWebview\<close> computes from the array that \<^verbatim>\<open>_loadGlyphData\<close> returned:
  one button per record, joined without a separator, inside the template.
\<close>

definition markup :: "BqnPrimitive list \<Rightarrow> js_string" where
  "markup bqnPrimitives =
     (let glyphButtons = concat (map (\<lambda>item.
            js ''<button class=\"glyph-button '' @ category item @ js ''\" title=\"'' @ name item
            @ js ''\">'' @ glyph item @ js ''</button>'') bqnPrimitives)
      in js html_before @ glyphButtons @ js html_after)"

definition getHtmlForWebview :: "host \<Rightarrow> js_string \<times> host_call list" where
  "getHtmlForWebview h =
     (case loadGlyphData h of (bqnPrimitives, calls) \<Rightarrow> (markup bqnPrimitives, calls))"

section \<open>The panel and its messages\<close>

text \<open>
  The webview of the panel: whether scripts may run, its markup, and the listeners for
  messages that have been registered on it.
\<close>

record Webview =
  enableScripts :: bool
  html :: js_string
  listeners :: "(host \<Rightarrow> Message \<Rightarrow> host_call list) list"

text \<open>\<^verbatim>\<open>editBuilder.replace(location, value)\<close> records one replacement in the builder.\<close>

definition editBuilder_replace :: "Selection \<Rightarrow> js_string \<Rightarrow> edit_op list \<Rightarrow> edit_op list" where
  "editBuilder_replace location value editBuilder = editBuilder @ [Replace location value]"

text \<open>\<^verbatim>\<open>Array.prototype.forEach\<close> with a callback that updates a state.\<close>

fun forEach :: "'a list \<Rightarrow> ('a \<Rightarrow> 's \<Rightarrow> 's) \<Rightarrow> 's \<Rightarrow> 's" where
  "forEach [] callback s = s"
| "forEach (x # xs) callback s = forEach xs callback (callback x s)"

text \<open>
  The listener given to \<^verbatim>\<open>onDidReceiveMessage\<close>: the calls it makes on the host for one
  message. The active editor is read from the host when the message arrives.
\<close>

definition onDidReceiveMessage :: "host \<Rightarrow> Message \<Rightarrow> host_call list" where
  "onDidReceiveMessage h message =
     (if command message = js ''insertGlyph'' then
        (case activeTextEditor h of
           None \<Rightarrow> [ShowInformationMessage (js ''No active editor to insert glyph into.'')]
         | Some editor \<Rightarrow>
             [EditThen editor
                (forEach (selections editor)
                   (\<lambda>selection editBuilder.
                      editBuilder_replace selection (Message.glyph message) editBuilder) [])
                [ShowTextDocument (document editor)]])
      else [])"

text \<open>
  \<^verbatim>\<open>resolveWebviewView\<close>: scripts are enabled, the markup is set and the listener above
  is registered.
\<close>

definition resolveWebviewView :: "host \<Rightarrow> Webview \<Rightarrow> Webview \<times> host_call list" where
  "resolveWebviewView h webview =
     (case getHtmlForWebview h of
        (markup_text, calls) \<Rightarrow>
          (webview\<lparr>enableScripts := True, html := markup_text,
                   listeners := listeners webview @ [onDidReceiveMessage]\<rparr>, calls))"

section \<open>An example host\<close>

text \<open>
  A host for the examples: every read succeeds, the parsed file and the active editor are
  given, and lower-casing maps the ASCII capitals to their small letters.
\<close>

definition ascii_lower :: "js_string \<Rightarrow> js_string" where
  "ascii_lower s = map (\<lambda>c. if 0x41 \<le> c \<and> c \<le> 0x5A then c + 0x20 else c) s"

definition example_host :: "SnippetsFile \<Rightarrow> TextEditor option \<Rightarrow> host" where
  "example_host snippets editor =
     \<lparr>fsPath = js ''/ext'',
      path_join = (\<lambda>parts. concat (map (\<lambda>p. js ''/'' @ p) parts)),
      readFileSync = (\<lambda>_. Inr []),
      JSON_parse = (\<lambda>_. Inr snippets),
      toLocaleLowerCase = ascii_lower,
      activeTextEditor = editor\<rparr>"

text \<open>
  A parsed file for the examples: two keys with a category, a key without a colon, a key
  that starts with a colon, an entry with an empty body and one whose first line is empty.
\<close>

definition example_snippets :: SnippetsFile where
  "example_snippets =
     [(js ''Function: Conjugate, Add'', \<lparr>body = [js ''+''], prefix' = [js ''+'']\<rparr>),
      (js ''Trigger only'', \<lparr>body = [], prefix' = [js ''t'']\<rparr>),
      (js ''Modifier 2: Foo'', \<lparr>body = [[0x2218], js ''x''], prefix' = []\<rparr>),
      (js ''Value: Blank'', \<lparr>body = [[], js ''x''], prefix' = []\<rparr>),
      (js ''Standalone'', \<lparr>body = [[0x2373]], prefix' = []\<rparr>),
      (js '': odd'', \<lparr>body = [js ''o''], prefix' = []\<rparr>)]"

text \<open>
  A parsed file two of whose keys are array indices; \<^verbatim>\<open>01\<close> is not one, since it is not
  a canonical numeral.
\<close>

definition numbered_snippets :: SnippetsFile where
  "numbered_snippets =
     [(js ''b'', \<lparr>body = [js ''B''], prefix' = []\<rparr>),
      (js ''10'', \<lparr>body = [js ''T''], prefix' = []\<rparr>),
      (js ''9'', \<lparr>body = [js ''N''], prefix' = []\<rparr>),
      (js ''a'', \<lparr>body = [js ''A''], prefix' = []\<rparr>),
      (js ''01'', \<lparr>body = [js ''Z''], prefix' = []\<rparr>)]"

text \<open>An editor with a selection and a second, empty one (a cursor).\<close>

definition example_editor :: TextEditor where
  "example_editor =
     \<lparr>document = js ''file:///work/a.bqn'',
      selections =
        [\<lparr>anchor = \<lparr>line = 0, character = 2\<rparr>, active = \<lparr>line = 0, character = 5\<rparr>\<rparr>,
         \<lparr>anchor = \<lparr>line = 3, character = 1\<rparr>, active = \<lparr>line = 3, character = 1\<rparr>\<rparr>]\<rparr>"

lemmas eval_defs = loadGlyphData_def try_block_def snippetsPath_of_def hasOwnProperty_def
  primitive_of_def match_category_def replace_category_def trim_def remove_whitespace_def
  is_space_def ascii_lower_def example_host_def js_def colon_def example_snippets_def
  own_keys_def is_array_index_def is_digit_def index_value_def

section \<open>Category and name of a key\<close>

lemma takeWhile_before_colon:
  "colon \<notin> set pre \<Longrightarrow> takeWhile (\<lambda>c. c \<noteq> colon) (pre @ colon # rest) = pre"
  by (induction pre) auto

lemma dropWhile_before_colon:
  "colon \<notin> set pre \<Longrightarrow> dropWhile (\<lambda>c. c \<noteq> colon) (pre @ colon # rest) = colon # rest"
  by (induction pre) auto

lemma dropWhile_no_colon:
  "colon \<notin> set key \<Longrightarrow> dropWhile (\<lambda>c. c \<noteq> colon) key = []"
  by (induction key) auto

lemma match_category_prefix:
  "pre \<noteq> [] \<Longrightarrow> colon \<notin> set pre \<Longrightarrow> match_category (pre @ colon # rest) = Some pre"
  by (simp add: match_category_def takeWhile_before_colon dropWhile_before_colon)

lemma replace_category_prefix:
  "pre \<noteq> [] \<Longrightarrow> colon \<notin> set pre \<Longrightarrow>
     replace_category (pre @ colon # rest) = dropWhile is_space rest"
  by (simp add: replace_category_def takeWhile_before_colon dropWhile_before_colon)

lemma match_category_no_colon: "colon \<notin> set key \<Longrightarrow> match_category key = None"
  by (simp add: match_category_def dropWhile_no_colon)

lemma replace_category_no_colon: "colon \<notin> set key \<Longrightarrow> replace_category key = key"
  by (simp add: replace_category_def dropWhile_no_colon)

lemma match_category_leading_colon: "match_category (colon # rest) = None"
  by (simp add: match_category_def)

lemma replace_category_leading_colon: "replace_category (colon # rest) = colon # rest"
  by (simp add: replace_category_def)

text \<open>
  Claim C1. For a key with a colon and at least one code unit before the first colon, the
  record derived from it has as category the text before that colon, trimmed, lower-cased
  and with all whitespace removed, and as name what follows the colon, without the
  whitespace after the colon and trimmed. For a key without a colon the category is
  \<open>other\<close> and the name is the trimmed key.
\<close>

theorem category_and_name_of_key:
  "(pre \<noteq> [] \<and> colon \<notin> set pre \<and> primitive_of h (pre @ colon # rest) snippet = Some p \<longrightarrow>
      category p = remove_whitespace (toLocaleLowerCase h (trim pre)) \<and>
      name p = trim (dropWhile is_space rest)) \<and>
   (colon \<notin> set key \<and> primitive_of h key snippet' = Some p' \<longrightarrow>
      category p' = js ''other'' \<and> name p' = trim key)"
  by (auto simp: primitive_of_def Let_def match_category_prefix replace_category_prefix
      match_category_no_colon replace_category_no_colon split: list.splits if_splits)

text \<open>
  The three keys the specification gives: \<^verbatim>\<open>Function: Conjugate, Add\<close>,
  \<^verbatim>\<open>Modifier 2: Foo\<close> and \<^verbatim>\<open>Standalone\<close>.
\<close>

theorem category_and_name_of_key_witness:
  "primitive_of (example_host [] None) (js ''Function: Conjugate, Add'')
       \<lparr>body = [js ''+''], prefix' = []\<rparr>
     = Some \<lparr>glyph = js ''+'', name = js ''Conjugate, Add'', category = js ''function''\<rparr> \<and>
   primitive_of (example_host [] None) (js ''Modifier 2: Foo'')
       \<lparr>body = [js ''+''], prefix' = []\<rparr>
     = Some \<lparr>glyph = js ''+'', name = js ''Foo'', category = js ''modifier2''\<rparr> \<and>
   primitive_of (example_host [] None) (js ''Standalone'')
       \<lparr>body = [js ''+''], prefix' = []\<rparr>
     = Some \<lparr>glyph = js ''+'', name = js ''Standalone'', category = js ''other''\<rparr>"
  using
    category_and_name_of_key [of "js ''Function''" "example_host [] None"
      "js '' Conjugate, Add''" "\<lparr>body = [js ''+''], prefix' = []\<rparr>"
      "\<lparr>glyph = js ''+'', name = js ''Conjugate, Add'', category = js ''function''\<rparr>"
      "js ''Standalone''" "\<lparr>body = [js ''+''], prefix' = []\<rparr>"
      "\<lparr>glyph = js ''+'', name = js ''Standalone'', category = js ''other''\<rparr>"]
    category_and_name_of_key [of "js ''Modifier 2''" "example_host [] None"
      "js '' Foo''" "\<lparr>body = [js ''+''], prefix' = []\<rparr>"
      "\<lparr>glyph = js ''+'', name = js ''Foo'', category = js ''modifier2''\<rparr>"
      "js ''Standalone''" "\<lparr>body = [js ''+''], prefix' = []\<rparr>"
      "\<lparr>glyph = js ''+'', name = js ''Standalone'', category = js ''other''\<rparr>"]
  by (simp add: eval_defs)

text \<open>
  Claim C10. A key whose first code unit is a colon is treated like a key without a colon:
  the category is \<open>other\<close> and the name is the whole key, colon included, trimmed.
\<close>

theorem leading_colon_is_other:
  "primitive_of h (colon # rest) snippet = Some p \<Longrightarrow>
     category p = js ''other'' \<and> name p = trim (colon # rest)"
  by (auto simp: primitive_of_def Let_def match_category_leading_colon
      replace_category_leading_colon split: list.splits if_splits)

theorem leading_colon_is_other_witness:
  "primitive_of (example_host [] None) (js '': odd'') \<lparr>body = [js ''o''], prefix' = []\<rparr>
     = Some \<lparr>glyph = js ''o'', name = js '': odd'', category = js ''other''\<rparr>"
  using
    leading_colon_is_other [of "example_host [] None" "js '' odd''"
      "\<lparr>body = [js ''o''], prefix' = []\<rparr>"
      "\<lparr>glyph = js ''o'', name = js '': odd'', category = js ''other''\<rparr>"]
  by (simp add: eval_defs)

section \<open>The records that are loaded\<close>

lemma for_in_shadowed:
  "map_of snippets (js ''hasOwnProperty'') = Some v \<Longrightarrow>
     for_in h snippets (k # keys) primitives =
       Inl (JsError (js ''TypeError'') (js ''snippets.hasOwnProperty is not a function''))"
  by (simp add: hasOwnProperty_def)

lemma for_in_unshadowed:
  "map_of snippets (js ''hasOwnProperty'') = None \<Longrightarrow>
     for_in h snippets keys primitives =
       Inr (primitives @ List.map_filter (\<lambda>k. Option.bind (map_of snippets k) (primitive_of h k)) keys)"
proof (induction keys arbitrary: primitives)
  case Nil
  show ?case by simp
next
  case (Cons k keys)
  then show ?case
    by (simp add: hasOwnProperty_def split: option.splits)
qed

lemma length_own_keys: "length (own_keys snippets) = length snippets"
  using sum_length_filter_compl [of is_array_index "map fst snippets"]
  by (simp add: own_keys_def)

lemma set_own_keys: "set (own_keys snippets) = set (map fst snippets)"
  by (auto simp: own_keys_def)

lemma distinct_own_keys: "distinct (map fst snippets) \<Longrightarrow> distinct (own_keys snippets)"
  by (auto simp: own_keys_def)

lemma own_keys_no_index:
  "\<forall>k \<in> set (map fst snippets). \<not> is_array_index k \<Longrightarrow> own_keys snippets = map fst snippets"
proof -
  assume a: "\<forall>k \<in> set (map fst snippets). \<not> is_array_index k"
  then have "filter is_array_index (map fst snippets) = []"
    by (simp add: filter_empty_conv)
  moreover from a have "filter (\<lambda>k. \<not> is_array_index k) (map fst snippets) = map fst snippets"
    by (simp add: filter_id_conv)
  ultimately show ?thesis
    by (simp add: own_keys_def)
qed

lemma try_block_parsed:
  assumes "readFileSync h (snippetsPath_of h) = Inr fileContent"
    and "JSON_parse h fileContent = Inr snippets"
  shows "try_block h (snippetsPath_of h) =
     (if map_of snippets (js ''hasOwnProperty'') = None
      then Inr (List.map_filter (\<lambda>k. Option.bind (map_of snippets k) (primitive_of h k))
                 (own_keys snippets))
      else Inl (JsError (js ''TypeError'') (js ''snippets.hasOwnProperty is not a function'')))"
proof (cases "map_of snippets (js ''hasOwnProperty'')")
  case None
  then show ?thesis
    using assms by (simp add: try_block_def for_in_unshadowed)
next
  case (Some v)
  then have "snippets \<noteq> []" by auto
  then have "own_keys snippets \<noteq> []"
    using length_own_keys [of snippets] by auto
  then obtain k ks where "own_keys snippets = k # ks"
    by (cases "own_keys snippets") auto
  then have "for_in h snippets (own_keys snippets) [] =
      Inl (JsError (js ''TypeError'') (js ''snippets.hasOwnProperty is not a function''))"
    using for_in_shadowed [OF Some, of h k ks "[]"] by simp
  then show ?thesis
    using assms Some by (simp add: try_block_def)
qed

lemma loadGlyphData_parsed:
  assumes "readFileSync h (snippetsPath_of h) = Inr fileContent"
    and "JSON_parse h fileContent = Inr snippets"
  shows "fst (loadGlyphData h) =
     (if map_of snippets (js ''hasOwnProperty'') = None
      then List.map_filter (\<lambda>k. Option.bind (map_of snippets k) (primitive_of h k))
             (own_keys snippets)
      else [])"
  by (simp add: loadGlyphData_def try_block_parsed [OF assms])


lemma primitive_of_Some_iff:
  "(\<exists>p. primitive_of h fullKey snippet = Some p) \<longleftrightarrow> (\<exists>g rest. body snippet = g # rest \<and> g \<noteq> [])"
  by (auto simp: primitive_of_def Let_def split: list.splits if_splits)






text \<open>
  Claim C6. The claim is that the records come in the order of the keys in the file, with
  no sorting. The loop visits the keys in the enumeration order of the parsed object, and
  that order puts the array indices first, in ascending order: for the file with the keys
  \<^verbatim>\<open>b\<close>, \<^verbatim>\<open>10\<close>, \<^verbatim>\<open>9\<close>, \<^verbatim>\<open>a\<close>, \<^verbatim>\<open>01\<close>, whose records have the key as their
  name, the records come in the order \<^verbatim>\<open>9\<close>, \<^verbatim>\<open>10\<close>, \<^verbatim>\<open>b\<close>, \<^verbatim>\<open>a\<close>, \<^verbatim>\<open>01\<close>.
\<close>

theorem records_not_in_file_order:
  "map fst numbered_snippets = [js ''b'', js ''10'', js ''9'', js ''a'', js ''01''] \<and>
   map name (fst (loadGlyphData (example_host numbered_snippets None)))
     = [js ''9'', js ''10'', js ''b'', js ''a'', js ''01''] \<and>
   map glyph (fst (loadGlyphData (example_host numbered_snippets None)))
     = [js ''N'', js ''T'', js ''B'', js ''A'', js ''Z'']"
  by (simp add: eval_defs numbered_snippets_def)

text \<open>
  Claim C6, as the code has it. When the file has been read and parsed and no entry is
  named \<^verbatim>\<open>hasOwnProperty\<close>, the records returned are exactly the records of the keys in
  this order: the keys that are array indices, sorted by their numeric value, then the other
  keys in the order of the file. Where no key of the file is an array index, that is the
  order of the file.
\<close>

theorem records_in_enumeration_order:
  assumes "readFileSync h (snippetsPath_of h) = Inr fileContent"
    and "JSON_parse h fileContent = Inr snippets"
    and "map_of snippets (js ''hasOwnProperty'') = None"
  shows "fst (loadGlyphData h) =
           List.map_filter (\<lambda>k. Option.bind (map_of snippets k) (primitive_of h k))
             (sort_key index_value (filter is_array_index (map fst snippets))
              @ filter (\<lambda>k. \<not> is_array_index k) (map fst snippets)) \<and>
         ((\<forall>k \<in> set (map fst snippets). \<not> is_array_index k) \<longrightarrow>
            fst (loadGlyphData h) =
              List.map_filter (\<lambda>k. Option.bind (map_of snippets k) (primitive_of h k))
                (map fst snippets))"
proof (intro conjI impI)
  have "fst (loadGlyphData h) =
      List.map_filter (\<lambda>k. Option.bind (map_of snippets k) (primitive_of h k)) (own_keys snippets)"
    using assms(3) by (simp add: loadGlyphData_parsed [OF assms(1,2)])
  then show "fst (loadGlyphData h) =
      List.map_filter (\<lambda>k. Option.bind (map_of snippets k) (primitive_of h k))
        (sort_key index_value (filter is_array_index (map fst snippets))
         @ filter (\<lambda>k. \<not> is_array_index k) (map fst snippets))"
    by (simp add: own_keys_def)
next
  assume "\<forall>k \<in> set (map fst snippets). \<not> is_array_index k"
  then have "own_keys snippets = map fst snippets"
    by (rule own_keys_no_index)
  then show "fst (loadGlyphData h) =
      List.map_filter (\<lambda>k. Option.bind (map_of snippets k) (primitive_of h k)) (map fst snippets)"
    using assms(3) by (simp add: loadGlyphData_parsed [OF assms(1,2)])
qed

text \<open>The file with array indices among its keys, and the file without.\<close>

theorem records_in_enumeration_order_witness:
  "readFileSync (example_host numbered_snippets None)
       (snippetsPath_of (example_host numbered_snippets None)) = Inr [] \<and>
   JSON_parse (example_host numbered_snippets None) [] = Inr numbered_snippets \<and>
   map_of numbered_snippets (js ''hasOwnProperty'') = None \<and>
   fst (loadGlyphData (example_host numbered_snippets None)) =
     [\<lparr>glyph = js ''N'', name = js ''9'', category = js ''other''\<rparr>,
      \<lparr>glyph = js ''T'', name = js ''10'', category = js ''other''\<rparr>,
      \<lparr>glyph = js ''B'', name = js ''b'', category = js ''other''\<rparr>,
      \<lparr>glyph = js ''A'', name = js ''a'', category = js ''other''\<rparr>,
      \<lparr>glyph = js ''Z'', name = js ''01'', category = js ''other''\<rparr>] \<and>
   fst (loadGlyphData (example_host example_snippets None)) =
     [\<lparr>glyph = js ''+'', name = js ''Conjugate, Add'', category = js ''function''\<rparr>,
      \<lparr>glyph = [0x2218], name = js ''Foo'', category = js ''modifier2''\<rparr>,
      \<lparr>glyph = [0x2373], name = js ''Standalone'', category = js ''other''\<rparr>,
      \<lparr>glyph = js ''o'', name = js '': odd'', category = js ''other''\<rparr>]"
proof -
  let ?n = "example_host numbered_snippets None" and ?e = "example_host example_snippets None"
  have rn: "readFileSync ?n (snippetsPath_of ?n) = Inr []"
    and jn: "JSON_parse ?n [] = Inr numbered_snippets"
    and re: "readFileSync ?e (snippetsPath_of ?e) = Inr []"
    and je: "JSON_parse ?e [] = Inr example_snippets"
    by (simp_all add: example_host_def)
  have un: "map_of numbered_snippets (js ''hasOwnProperty'') = None"
    and ue: "map_of example_snippets (js ''hasOwnProperty'') = None"
    by (simp_all add: numbered_snippets_def example_snippets_def js_def)
  have ne: "\<forall>k \<in> set (map fst example_snippets). \<not> is_array_index k"
    by (simp add: example_snippets_def is_array_index_def is_digit_def js_def)
  have "fst (loadGlyphData ?n) =
      List.map_filter (\<lambda>k. Option.bind (map_of numbered_snippets k) (primitive_of ?n k))
        (sort_key index_value (filter is_array_index (map fst numbered_snippets))
         @ filter (\<lambda>k. \<not> is_array_index k) (map fst numbered_snippets))"
    using records_in_enumeration_order [OF rn jn un] by blast
  moreover have "fst (loadGlyphData ?e) =
      List.map_filter (\<lambda>k. Option.bind (map_of example_snippets k) (primitive_of ?e k))
        (map fst example_snippets)"
    using records_in_enumeration_order [OF re je ue] ne by blast
  ultimately show ?thesis
    using rn jn un by (simp add: eval_defs numbered_snippets_def)
qed

text \<open>
  Where no entry of the file has the key \<^verbatim>\<open>hasOwnProperty\<close>, the loop visits every key of
  the file, each once, and nothing is reported: the result is the record of each entry whose
  first body line is not empty, one per entry, and the other entries are skipped.
\<close>

lemma loadGlyphData_unshadowed:
  assumes "readFileSync h (snippetsPath_of h) = Inr fileContent"
    and "JSON_parse h fileContent = Inr snippets"
    and "distinct (map fst snippets)"
    and "map_of snippets (js ''hasOwnProperty'') = None"
  shows "loadGlyphData h =
           (List.map_filter (\<lambda>k. Option.bind (map_of snippets k) (primitive_of h k)) (own_keys snippets), [])"
    and "distinct (own_keys snippets)"
    and "set (own_keys snippets) = set (map fst snippets)"
  using assms(4)
  by (simp_all add: loadGlyphData_def try_block_parsed [OF assms(1,2)]
      distinct_own_keys [OF assms(3)] set_own_keys)

text \<open>
  Claim C2. The claim is that every well-formed file gives one record per entry with a
  non-empty first body line. A file with an entry named \<^verbatim>\<open>hasOwnProperty\<close> does not:
  the guard of the loop calls that entry instead of the method, the \<^verbatim>\<open>TypeError\<close> is
  caught, and no record is returned at all, not even for the entries before it.
\<close>

theorem hasOwnProperty_key_fails:
  "loadGlyphData (example_host
       [(js ''Function: Conjugate, Add'', \<lparr>body = [js ''+''], prefix' = [js ''+'']\<rparr>),
        (js ''hasOwnProperty'', \<lparr>body = [js ''x''], prefix' = [js ''x'']\<rparr>)] None)
     = ([], [ShowErrorMessage (js ''Failed to load BQN snippets: TypeError: snippets.hasOwnProperty is not a function''),
             ConsoleError (js ''Failed to load BQN snippets:'')
               (JsError (js ''TypeError'') (js ''snippets.hasOwnProperty is not a function''))])"
  by (simp add: eval_defs)

section \<open>Failures of the load\<close>

text \<open>
  Claim C3. The load returns for every host: either the statements inside \<^verbatim>\<open>try\<close>
  finish and their array is returned with no call on the host, or they throw and the result
  is the empty array after exactly one error notification and one log call. A read that
  throws and a parse that throws are such failures.
\<close>

theorem loadGlyphData_total:
  "((\<exists>primitives. try_block h (snippetsPath_of h) = Inr primitives \<and>
        loadGlyphData h = (primitives, [])) \<or>
    (\<exists>e. try_block h (snippetsPath_of h) = Inl e \<and>
        loadGlyphData h =
          ([], [ShowErrorMessage (js ''Failed to load BQN snippets: '' @ to_string e),
                ConsoleError (js ''Failed to load BQN snippets:'') e]))) \<and>
   (\<forall>e. readFileSync h (snippetsPath_of h) = Inl e \<longrightarrow>
        try_block h (snippetsPath_of h) = Inl e) \<and>
   (\<forall>fileContent e. readFileSync h (snippetsPath_of h) = Inr fileContent \<and>
        JSON_parse h fileContent = Inl e \<longrightarrow> try_block h (snippetsPath_of h) = Inl e)"
proof (intro conjI allI impI)
  show "(\<exists>primitives. try_block h (snippetsPath_of h) = Inr primitives \<and>
        loadGlyphData h = (primitives, [])) \<or>
    (\<exists>e. try_block h (snippetsPath_of h) = Inl e \<and>
        loadGlyphData h =
          ([], [ShowErrorMessage (js ''Failed to load BQN snippets: '' @ to_string e),
                ConsoleError (js ''Failed to load BQN snippets:'') e]))"
    by (cases "try_block h (snippetsPath_of h)") (simp_all add: loadGlyphData_def)
next
  fix e assume "readFileSync h (snippetsPath_of h) = Inl e"
  then show "try_block h (snippetsPath_of h) = Inl e"
    by (simp add: try_block_def)
next
  fix fileContent e
  assume "readFileSync h (snippetsPath_of h) = Inr fileContent \<and> JSON_parse h fileContent = Inl e"
  then show "try_block h (snippetsPath_of h) = Inl e"
    by (simp add: try_block_def)
qed

text \<open>A missing file and a file that is not JSON.\<close>

theorem loadGlyphData_total_witness:
  "loadGlyphData ((example_host example_snippets None)
       \<lparr>readFileSync := \<lambda>_. Inl (JsError (js ''Error'') (js ''ENOENT: no such file or directory''))\<rparr>)
     = ([], [ShowErrorMessage (js ''Failed to load BQN snippets: Error: ENOENT: no such file or directory''),
             ConsoleError (js ''Failed to load BQN snippets:'')
               (JsError (js ''Error'') (js ''ENOENT: no such file or directory''))]) \<and>
   loadGlyphData ((example_host example_snippets None)
       \<lparr>JSON_parse := \<lambda>_. Inl (JsError (js ''SyntaxError'') (js ''Unexpected end of JSON input''))\<rparr>)
     = ([], [ShowErrorMessage (js ''Failed to load BQN snippets: SyntaxError: Unexpected end of JSON input''),
             ConsoleError (js ''Failed to load BQN snippets:'')
               (JsError (js ''SyntaxError'') (js ''Unexpected end of JSON input''))])"
  using
    loadGlyphData_total [of "(example_host example_snippets None)
       \<lparr>readFileSync := \<lambda>_. Inl (JsError (js ''Error'') (js ''ENOENT: no such file or directory''))\<rparr>"]
    loadGlyphData_total [of "(example_host example_snippets None)
       \<lparr>JSON_parse := \<lambda>_. Inl (JsError (js ''SyntaxError'') (js ''Unexpected end of JSON input''))\<rparr>"]
  by (auto simp: example_host_def js_def)

section \<open>Messages from the panel\<close>

lemma forEach_replace:
  "forEach sels (\<lambda>selection editBuilder. editBuilder_replace selection g editBuilder) ops
     = ops @ map (\<lambda>selection. Replace selection g) sels"
  by (induction sels arbitrary: ops) (simp_all add: editBuilder_replace_def)

text \<open>
  Claim C4. For an \<^verbatim>\<open>insertGlyph\<close> message with an active editor the listener makes one
  call of \<^verbatim>\<open>edit\<close>, whose builder holds one replacement by the glyph for every
  selection of the editor, in their order, and whose continuation shows the editor's
  document.
\<close>

theorem insertGlyph_replaces_selections:
  "command message = js ''insertGlyph'' \<Longrightarrow> activeTextEditor h = Some editor \<Longrightarrow>
     onDidReceiveMessage h message =
       [EditThen editor
          (map (\<lambda>selection. Replace selection (Message.glyph message)) (selections editor))
          [ShowTextDocument (document editor)]]"
  by (simp add: onDidReceiveMessage_def forEach_replace)

theorem insertGlyph_replaces_selections_witness:
  "onDidReceiveMessage (example_host [] (Some example_editor))
       \<lparr>command = js ''insertGlyph'', glyph = [0x2373]\<rparr> =
     [EditThen example_editor
        [Replace \<lparr>anchor = \<lparr>line = 0, character = 2\<rparr>, active = \<lparr>line = 0, character = 5\<rparr>\<rparr> [0x2373],
         Replace \<lparr>anchor = \<lparr>line = 3, character = 1\<rparr>, active = \<lparr>line = 3, character = 1\<rparr>\<rparr> [0x2373]]
        [ShowTextDocument (js ''file:///work/a.bqn'')]]"
  using insertGlyph_replaces_selections [of "\<lparr>command = js ''insertGlyph'', glyph = [0x2373]\<rparr>"
      "example_host [] (Some example_editor)" example_editor]
  by (simp add: example_host_def example_editor_def)

text \<open>
  Claim C5. For an \<^verbatim>\<open>insertGlyph\<close> message without an active editor the listener shows
  one information message with the text of the source and does nothing else.
\<close>

theorem insertGlyph_without_editor:
  "command message = js ''insertGlyph'' \<Longrightarrow> activeTextEditor h = None \<Longrightarrow>
     onDidReceiveMessage h message =
       [ShowInformationMessage (js ''No active editor to insert glyph into.'')]"
  by (simp add: onDidReceiveMessage_def)

theorem insertGlyph_without_editor_witness:
  "onDidReceiveMessage (example_host [] None) \<lparr>command = js ''insertGlyph'', glyph = [0x2373]\<rparr> =
     [ShowInformationMessage (js ''No active editor to insert glyph into.'')]"
  using insertGlyph_without_editor [of "\<lparr>command = js ''insertGlyph'', glyph = [0x2373]\<rparr>"
      "example_host [] None"]
  by (simp add: example_host_def)

text \<open>
  Claim C8. A message with any other command makes no call on the host.
\<close>

theorem other_command_ignored:
  "command message \<noteq> js ''insertGlyph'' \<Longrightarrow> onDidReceiveMessage h message = []"
  by (simp add: onDidReceiveMessage_def)

theorem other_command_ignored_witness:
  "onDidReceiveMessage (example_host [] (Some example_editor))
       \<lparr>command = js ''insertglyph'', glyph = [0x2373]\<rparr> = [] \<and>
   onDidReceiveMessage (example_host [] None) \<lparr>command = [], glyph = []\<rparr> = []"
  using other_command_ignored [of "\<lparr>command = js ''insertglyph'', glyph = [0x2373]\<rparr>"
      "example_host [] (Some example_editor)"]
    other_command_ignored [of "\<lparr>command = [], glyph = []\<rparr>" "example_host [] None"]
  by (simp add: js_def)

section \<open>Determinism of the markup\<close>

text \<open>
  Claim C9. Two hosts whose loads return the same records get the same markup, code unit
  by code unit: the markup is a function of the records alone, and producing it makes no
  call on the host besides those of the load.
\<close>

theorem markup_deterministic:
  "fst (loadGlyphData h1) = fst (loadGlyphData h2) \<Longrightarrow>
     fst (getHtmlForWebview h1) = fst (getHtmlForWebview h2) \<and>
     fst (getHtmlForWebview h1) = markup (fst (loadGlyphData h1)) \<and>
     snd (getHtmlForWebview h1) = snd (loadGlyphData h1)"
  by (auto simp: getHtmlForWebview_def split: prod.splits)

theorem markup_deterministic_witness:
  "fst (loadGlyphData (example_host [(js ''Function: Conjugate, Add'',
          \<lparr>body = [js ''+''], prefix' = [js ''+'']\<rparr>)] None))
     = fst (loadGlyphData (example_host [(js ''Function  : Conjugate, Add  '',
          \<lparr>body = [js ''+'', js ''x''], prefix' = []\<rparr>), (js ''Gap'', \<lparr>body = [], prefix' = []\<rparr>)]
          (Some example_editor))) \<and>
   fst (getHtmlForWebview (example_host [(js ''Function: Conjugate, Add'',
          \<lparr>body = [js ''+''], prefix' = [js ''+'']\<rparr>)] None))
     = fst (getHtmlForWebview (example_host [(js ''Function  : Conjugate, Add  '',
          \<lparr>body = [js ''+'', js ''x''], prefix' = []\<rparr>), (js ''Gap'', \<lparr>body = [], prefix' = []\<rparr>)]
          (Some example_editor)))"
  using markup_deterministic [of "example_host [(js ''Function: Conjugate, Add'',
          \<lparr>body = [js ''+''], prefix' = [js ''+'']\<rparr>)] None"
      "example_host [(js ''Function  : Conjugate, Add  '',
          \<lparr>body = [js ''+'', js ''x''], prefix' = []\<rparr>), (js ''Gap'', \<lparr>body = [], prefix' = []\<rparr>)]
          (Some example_editor)"]
  by (simp add: eval_defs)

lemma markup_example:
  "markup [\<lparr>glyph = [0x2373], name = js ''Range'', category = js ''function''\<rparr>] =
     js html_before @ js ''<button class=\"glyph-button function\" title=\"Range\">'' @ [0x2373]
       @ js ''</button>'' @ js html_after"
  by (simp add: markup_def js_def)

end
